theory Spec2Isabelle
  imports Main
begin

section \<open>The data model of \<open>src/index.ts\<close>\<close>

text \<open>
  The module exports one object, \<open>None\<close>, and one function, \<open>Some\<close>, that returns a new
  object literal at every call. Both are plain JavaScript objects whose methods are closures;
  \<open>Some\<close>'s methods capture the parameter \<open>value\<close>. The tests compare results by identity
  (\<open>toBe\<close>), and three methods return \<open>this\<close>, so an object is modelled with its identity.

  Raw JavaScript values: the code only ever tests a value against \<open>null\<close> and \<open>undefined\<close>
  (with \<open>===\<close>), so every other value is kept abstract.
\<close>

datatype 'a jsval = JNull | JUndefined | JOther 'a

text \<open>
  Which of the two object literals an object was built from: the literal of \<open>None\<close>
  (lines 123 to 159), or the literal returned by \<open>Some(value)\<close> (lines 162 to 200) together
  with the captured \<open>value\<close>. The captured variable is never assigned, and the fields are
  \<open>readonly\<close>, so an object is its identity and its literal.
\<close>

datatype 'a literal = NoneLiteral | SomeLiteral 'a

record 'a Option =
  oid :: nat
  body :: "'a literal"

text \<open>
  The world a call runs in: the next unused object identity, and whatever else the consumer's
  callbacks can read or change (\<open>user\<close>, for instance a call counter).
\<close>

record 's world =
  next_oid :: nat
  user :: 's

text \<open>
  A JavaScript computation: run in a world, it either throws (\<open>Inl\<close> the thrown value) or
  returns (\<open>Inr\<close>), and leaves a world behind in both cases. A callback \<open>(x: T) => U\<close> is a
  function into computations; a callback \<open>() => U\<close> is a computation. A callback that never
  returns is outside the model.
\<close>

type_synonym ('s, 'e, 'r) js = "'s world \<Rightarrow> ('e + 'r) \<times> 's world"

definition returns :: "'r \<Rightarrow> ('s, 'e, 'r) js" where
  "returns r = (\<lambda>w. (Inr r, w))"

definition throws :: "'e \<Rightarrow> ('s, 'e, 'r) js" where
  "throws e = (\<lambda>w. (Inl e, w))"

text \<open>
  Evaluate \<open>m\<close>, then pass what it returned on; a throw of \<open>m\<close> leaves through every enclosing
  call, since no function of the module has a \<open>try\<close>.
\<close>

definition seq :: "('s, 'e, 'q) js \<Rightarrow> ('q \<Rightarrow> ('s, 'e, 'r) js) \<Rightarrow> ('s, 'e, 'r) js" where
  "seq m k = (\<lambda>w. case m w of (Inl e, w') \<Rightarrow> (Inl e, w') | (Inr q, w') \<Rightarrow> k q w')"

section \<open>The two variants\<close>

text \<open>
  \<open>export const None: Option<any> = { ... }\<close>: one object, built when the module is loaded;
  it has identity 0, and the world a consumer starts in hands out identities from 1.
\<close>

definition None_opt :: "'a Option" where
  "None_opt = \<lparr>oid = 0, body = NoneLiteral\<rparr>"

definition world0 :: "'s \<Rightarrow> 's world" where
  "world0 u = \<lparr>next_oid = 1, user = u\<rparr>"

text \<open>\<open>export function Some<T>(value: T): Option<T> { return { ... } }\<close>: a new object.\<close>

definition Some_opt :: "'a \<Rightarrow> ('s, 'e, 'a Option) js" where
  "Some_opt val = (\<lambda>w. (Inr \<lparr>oid = next_oid w, body = SomeLiteral val\<rparr>,
                         w\<lparr>next_oid := Suc (next_oid w)\<rparr>))"

text \<open>The fields \<open>isNone\<close> and \<open>isSome\<close> of the two literals.\<close>

definition isNone :: "'a Option \<Rightarrow> bool" where
  "isNone opt = (case body opt of NoneLiteral \<Rightarrow> True | SomeLiteral _ \<Rightarrow> False)"

definition isSome :: "'a Option \<Rightarrow> bool" where
  "isSome opt = (case body opt of NoneLiteral \<Rightarrow> False | SomeLiteral _ \<Rightarrow> True)"

subsection \<open>The methods of the \<open>None\<close> literal (lines 124 to 156)\<close>

definition None_match :: "('a \<Rightarrow> ('s, 'e, 'u) js) \<Rightarrow> ('s, 'e, 'u) js \<Rightarrow> ('s, 'e, 'u) js" where
  "None_match _ none = none"

definition None_getValueOrDefault :: "'a \<Rightarrow> ('s, 'e, 'a) js" where
  "None_getValueOrDefault defaultValue = returns defaultValue"

definition None_getValueOrCompute :: "('s, 'e, 'a) js \<Rightarrow> ('s, 'e, 'a) js" where
  "None_getValueOrCompute computeFn = computeFn"

definition None_mapOrDefault :: "('a \<Rightarrow> ('s, 'e, 'u) js) \<Rightarrow> 'u \<Rightarrow> ('s, 'e, 'u) js" where
  "None_mapOrDefault _ defaultValue = returns defaultValue"

definition None_mapOrCompute :: "('a \<Rightarrow> ('s, 'e, 'u) js) \<Rightarrow> ('s, 'e, 'u) js \<Rightarrow> ('s, 'e, 'u) js" where
  "None_mapOrCompute _ defaultComputeFn = defaultComputeFn"

definition None_map :: "('a \<Rightarrow> ('s, 'e, 'u) js) \<Rightarrow> ('s, 'e, 'u Option) js" where
  "None_map _ = returns None_opt"

definition None_and :: "'u Option \<Rightarrow> ('s, 'e, 'u Option) js" where
  "None_and _ = returns None_opt"

definition None_andThen :: "('a \<Rightarrow> ('s, 'e, 'u Option) js) \<Rightarrow> ('s, 'e, 'u Option) js" where
  "None_andThen _ = returns None_opt"

definition None_or :: "'a Option \<Rightarrow> ('s, 'e, 'a Option) js" where
  "None_or opt = returns opt"

definition None_orElse :: "('s, 'e, 'a Option) js \<Rightarrow> ('s, 'e, 'a Option) js" where
  "None_orElse fn = fn"

definition None_filter :: "('a \<Rightarrow> ('s, 'e, bool) js) \<Rightarrow> ('s, 'e, 'a Option) js" where
  "None_filter _ = returns None_opt"

subsection \<open>The methods of the literal returned by \<open>Some(value)\<close> (lines 163 to 197)\<close>

text \<open>
  \<open>val\<close> is the captured \<open>value\<close>; \<open>this\<close> is the receiver of the call, which \<open>or\<close>,
  \<open>orElse\<close> and \<open>filter\<close> return.
\<close>

definition Some_match :: "'a \<Rightarrow> ('a \<Rightarrow> ('s, 'e, 'u) js) \<Rightarrow> ('s, 'e, 'u) js \<Rightarrow> ('s, 'e, 'u) js" where
  "Some_match val some _ = some val"

definition Some_getValueOrDefault :: "'a \<Rightarrow> 'a \<Rightarrow> ('s, 'e, 'a) js" where
  "Some_getValueOrDefault val _ = returns val"

definition Some_getValueOrCompute :: "'a \<Rightarrow> ('s, 'e, 'a) js \<Rightarrow> ('s, 'e, 'a) js" where
  "Some_getValueOrCompute val _ = returns val"

definition Some_mapOrDefault :: "'a \<Rightarrow> ('a \<Rightarrow> ('s, 'e, 'u) js) \<Rightarrow> 'u \<Rightarrow> ('s, 'e, 'u) js" where
  "Some_mapOrDefault val mapf _ = mapf val"

definition Some_mapOrCompute ::
  "'a \<Rightarrow> ('a \<Rightarrow> ('s, 'e, 'u) js) \<Rightarrow> ('s, 'e, 'u) js \<Rightarrow> ('s, 'e, 'u) js" where
  "Some_mapOrCompute val mapf _ = mapf val"

definition Some_map :: "'a \<Rightarrow> ('a \<Rightarrow> ('s, 'e, 'u) js) \<Rightarrow> ('s, 'e, 'u Option) js" where
  "Some_map val fn = seq (fn val) Some_opt"

definition Some_and :: "'a \<Rightarrow> 'u Option \<Rightarrow> ('s, 'e, 'u Option) js" where
  "Some_and val opt = returns opt"

definition Some_andThen :: "'a \<Rightarrow> ('a \<Rightarrow> ('s, 'e, 'u Option) js) \<Rightarrow> ('s, 'e, 'u Option) js" where
  "Some_andThen val fn = fn val"

definition Some_or :: "'a Option \<Rightarrow> 'a Option \<Rightarrow> ('s, 'e, 'a Option) js" where
  "Some_or this _ = returns this"

definition Some_orElse :: "'a Option \<Rightarrow> ('s, 'e, 'a Option) js \<Rightarrow> ('s, 'e, 'a Option) js" where
  "Some_orElse this _ = returns this"

definition Some_filter ::
  "'a Option \<Rightarrow> 'a \<Rightarrow> ('a \<Rightarrow> ('s, 'e, bool) js) \<Rightarrow> ('s, 'e, 'a Option) js" where
  "Some_filter this val fn = seq (fn val) (\<lambda>b. returns (if b then this else None_opt))"

subsection \<open>Method calls\<close>

text \<open>
  \<open>opt.m(args)\<close> runs the method \<open>m\<close> that the object \<open>opt\<close> carries, with \<open>this = opt\<close>:
  the one of the \<open>None\<close> literal or the one of the \<open>Some\<close> literal.
\<close>

definition Option_match ::
  "'a Option \<Rightarrow> ('a \<Rightarrow> ('s, 'e, 'u) js) \<Rightarrow> ('s, 'e, 'u) js \<Rightarrow> ('s, 'e, 'u) js" where
  "Option_match opt some none =
     (case body opt of NoneLiteral \<Rightarrow> None_match some none
                     | SomeLiteral val \<Rightarrow> Some_match val some none)"

definition Option_getValueOrDefault :: "'a Option \<Rightarrow> 'a \<Rightarrow> ('s, 'e, 'a) js" where
  "Option_getValueOrDefault opt defaultValue =
     (case body opt of NoneLiteral \<Rightarrow> None_getValueOrDefault defaultValue
                     | SomeLiteral val \<Rightarrow> Some_getValueOrDefault val defaultValue)"

definition Option_getValueOrCompute :: "'a Option \<Rightarrow> ('s, 'e, 'a) js \<Rightarrow> ('s, 'e, 'a) js" where
  "Option_getValueOrCompute opt computeFn =
     (case body opt of NoneLiteral \<Rightarrow> None_getValueOrCompute computeFn
                     | SomeLiteral val \<Rightarrow> Some_getValueOrCompute val computeFn)"

definition Option_mapOrDefault ::
  "'a Option \<Rightarrow> ('a \<Rightarrow> ('s, 'e, 'u) js) \<Rightarrow> 'u \<Rightarrow> ('s, 'e, 'u) js" where
  "Option_mapOrDefault opt mapf defaultValue =
     (case body opt of NoneLiteral \<Rightarrow> None_mapOrDefault mapf defaultValue
                     | SomeLiteral val \<Rightarrow> Some_mapOrDefault val mapf defaultValue)"

definition Option_mapOrCompute ::
  "'a Option \<Rightarrow> ('a \<Rightarrow> ('s, 'e, 'u) js) \<Rightarrow> ('s, 'e, 'u) js \<Rightarrow> ('s, 'e, 'u) js" where
  "Option_mapOrCompute opt mapf computeFn =
     (case body opt of NoneLiteral \<Rightarrow> None_mapOrCompute mapf computeFn
                     | SomeLiteral val \<Rightarrow> Some_mapOrCompute val mapf computeFn)"

definition Option_map :: "'a Option \<Rightarrow> ('a \<Rightarrow> ('s, 'e, 'u) js) \<Rightarrow> ('s, 'e, 'u Option) js" where
  "Option_map opt fn =
     (case body opt of NoneLiteral \<Rightarrow> None_map fn
                     | SomeLiteral val \<Rightarrow> Some_map val fn)"

definition Option_and :: "'a Option \<Rightarrow> 'u Option \<Rightarrow> ('s, 'e, 'u Option) js" where
  "Option_and opt other =
     (case body opt of NoneLiteral \<Rightarrow> None_and other
                     | SomeLiteral val \<Rightarrow> Some_and val other)"

definition Option_andThen ::
  "'a Option \<Rightarrow> ('a \<Rightarrow> ('s, 'e, 'u Option) js) \<Rightarrow> ('s, 'e, 'u Option) js" where
  "Option_andThen opt fn =
     (case body opt of NoneLiteral \<Rightarrow> None_andThen fn
                     | SomeLiteral val \<Rightarrow> Some_andThen val fn)"

definition Option_or :: "'a Option \<Rightarrow> 'a Option \<Rightarrow> ('s, 'e, 'a Option) js" where
  "Option_or opt other =
     (case body opt of NoneLiteral \<Rightarrow> None_or other
                     | SomeLiteral val \<Rightarrow> Some_or opt other)"

definition Option_orElse :: "'a Option \<Rightarrow> ('s, 'e, 'a Option) js \<Rightarrow> ('s, 'e, 'a Option) js" where
  "Option_orElse opt fn =
     (case body opt of NoneLiteral \<Rightarrow> None_orElse fn
                     | SomeLiteral val \<Rightarrow> Some_orElse opt fn)"

definition Option_filter ::
  "'a Option \<Rightarrow> ('a \<Rightarrow> ('s, 'e, bool) js) \<Rightarrow> ('s, 'e, 'a Option) js" where
  "Option_filter opt fn =
     (case body opt of NoneLiteral \<Rightarrow> None_filter fn
                     | SomeLiteral val \<Rightarrow> Some_filter opt val fn)"

section \<open>The conversion utilities (lines 210 to 258)\<close>

definition fromValue :: "'a jsval \<Rightarrow> ('s, 'e, 'a jsval Option) js" where
  "fromValue val = (if val = JNull \<or> val = JUndefined then returns None_opt else Some_opt val)"

definition fromValueConditional ::
  "'a \<Rightarrow> ('a \<Rightarrow> ('s, 'e, bool) js) \<Rightarrow> ('s, 'e, 'a Option) js" where
  "fromValueConditional val isNoneP =
     seq (isNoneP val) (\<lambda>b. if b then returns None_opt else Some_opt val)"

definition fromNullable :: "'a jsval \<Rightarrow> ('s, 'e, 'a jsval Option) js" where
  "fromNullable val = (if val = JNull then returns None_opt else Some_opt val)"

definition fromUndefinable :: "'a jsval \<Rightarrow> ('s, 'e, 'a jsval Option) js" where
  "fromUndefinable val = (if val = JUndefined then returns None_opt else Some_opt val)"

definition createOptionFactory ::
  "('a \<Rightarrow> ('s, 'e, bool) js) \<Rightarrow> ('a \<Rightarrow> ('s, 'e, 'a Option) js)" where
  "createOptionFactory isNonePredicate =
     (\<lambda>val. seq (isNonePredicate val) (\<lambda>b. if b then returns None_opt else Some_opt val))"

section \<open>Consumer code used to state the properties\<close>

text \<open>
  The consumer expression \<open>opt.andThen(f1).andThen(f2). ... .andThen(fn)\<close>: each call runs
  on what the call before it returned.
\<close>

fun andThen_chain ::
  "'a Option \<Rightarrow> ('a \<Rightarrow> ('s, 'e, 'a Option) js) list \<Rightarrow> ('s, 'e, 'a Option) js" where
  "andThen_chain opt [] = returns opt"
| "andThen_chain opt (f # fs) = seq (Option_andThen opt f) (\<lambda>r. andThen_chain r fs)"

text \<open>
  How a call left exceptionally, if it did: the thrown value and the world at that moment.
\<close>

definition fault :: "('e + 'r) \<times> 'w \<Rightarrow> ('e \<times> 'w) option" where
  "fault out = (case out of (Inl e, w') \<Rightarrow> Some (e, w') | (Inr _, _) \<Rightarrow> None)"

text \<open>
  A callback with a call counter: it returns \<open>g x\<close> and counts the call in the \<open>user\<close> part
  of the world. A thunk with a call counter likewise.
\<close>

definition counting :: "('a \<Rightarrow> 'r) \<Rightarrow> 'a \<Rightarrow> (nat, 'e, 'r) js" where
  "counting g x = (\<lambda>w. (Inr (g x), w\<lparr>user := Suc (user w)\<rparr>))"

definition counting_thunk :: "'r \<Rightarrow> (nat, 'e, 'r) js" where
  "counting_thunk r = (\<lambda>w. (Inr r, w\<lparr>user := Suc (user w)\<rparr>))"

text \<open>
  The outcomes of the operations that can hand out an absent object of their own: \<open>map\<close>,
  \<open>and\<close>, \<open>andThen\<close> and \<open>filter\<close> called on \<open>None\<close>, \<open>filter\<close> called on a present
  object, and the five conversion utilities, at any arguments and in any world. (The other
  operations return an argument, the receiver or what a callback returned.)
\<close>

inductive listed_outcome :: "('e + 'a jsval Option) \<times> 's world \<Rightarrow> bool" where
  of_None_map: "listed_outcome (Option_map (None_opt :: 'a jsval Option) f w)"
| of_None_and: "listed_outcome (Option_and (None_opt :: 'a jsval Option) other w)"
| of_None_andThen: "listed_outcome (Option_andThen (None_opt :: 'a jsval Option) g w)"
| of_None_filter: "listed_outcome (Option_filter None_opt pred w)"
| of_Some_filter: "body p = SomeLiteral x \<Longrightarrow> listed_outcome (Option_filter p pred w)"
| of_fromValue: "listed_outcome (fromValue v w)"
| of_fromValueConditional: "listed_outcome (fromValueConditional y isNoneP w)"
| of_fromNullable: "listed_outcome (fromNullable v w)"
| of_fromUndefinable: "listed_outcome (fromUndefinable v w)"
| of_createOptionFactory: "listed_outcome (createOptionFactory isNoneP y w)"

section \<open>Running the building blocks\<close>

lemma returns_apply: "returns r w = (Inr r, w)"
  by (simp add: returns_def)

lemma throws_apply: "throws e w = (Inl e, w)"
  by (simp add: throws_def)

lemma seq_Inr: "m w = (Inr q, w') \<Longrightarrow> seq m k w = k q w'"
  by (simp add: seq_def)

lemma seq_Inl: "m w = (Inl e, w') \<Longrightarrow> seq m k w = (Inl e, w')"
  by (simp add: seq_def)

lemma seq_returns: "seq (returns r) k = k r"
  by (rule ext) (simp add: seq_def returns_def)

lemma Some_opt_apply:
  "Some_opt v w = (Inr \<lparr>oid = next_oid w, body = SomeLiteral v\<rparr>, w\<lparr>next_oid := Suc (next_oid w)\<rparr>)"
  by (simp add: Some_opt_def)

lemma isNone_None_opt: "isNone None_opt"
  by (simp add: isNone_def None_opt_def)

lemma isSome_iff_not_isNone: "isSome opt = (\<not> isNone opt)"
  by (simp add: isSome_def isNone_def split: literal.split)

lemma isNone_body: "isNone opt = (body opt = NoneLiteral)"
  by (simp add: isNone_def split: literal.split)

lemma isSome_body: "isSome opt = (\<exists>v. body opt = SomeLiteral v)"
  by (simp add: isSome_def split: literal.split)

section \<open>Calls on an absent receiver\<close>

text \<open>
  Every method of the \<open>None\<close> literal, run on any object that carries it. Where the right-hand
  side does not mention a callback and the world is returned as it was, that callback has not
  run: the equation holds for callbacks that count their calls and for callbacks that throw.
\<close>

lemma absent_map: "isNone r \<Longrightarrow> Option_map r f w = (Inr None_opt, w)"
  by (simp add: isNone_body Option_map_def None_map_def returns_def)

lemma absent_and: "isNone r \<Longrightarrow> Option_and r other w = (Inr None_opt, w)"
  by (simp add: isNone_body Option_and_def None_and_def returns_def)

lemma absent_andThen: "isNone r \<Longrightarrow> Option_andThen r f w = (Inr None_opt, w)"
  by (simp add: isNone_body Option_andThen_def None_andThen_def returns_def)

lemma absent_filter: "isNone r \<Longrightarrow> Option_filter r pred w = (Inr None_opt, w)"
  by (simp add: isNone_body Option_filter_def None_filter_def returns_def)

lemma absent_or: "isNone r \<Longrightarrow> Option_or r other w = (Inr other, w)"
  by (simp add: isNone_body Option_or_def None_or_def returns_def)

lemma absent_orElse: "isNone r \<Longrightarrow> Option_orElse r c = c"
  by (simp add: isNone_body Option_orElse_def None_orElse_def)

lemma absent_match: "isNone r \<Longrightarrow> Option_match r some none = none"
  by (simp add: isNone_body Option_match_def None_match_def)

lemma absent_getValueOrDefault: "isNone r \<Longrightarrow> Option_getValueOrDefault r d w = (Inr d, w)"
  by (simp add: isNone_body Option_getValueOrDefault_def None_getValueOrDefault_def returns_def)

lemma absent_getValueOrCompute: "isNone r \<Longrightarrow> Option_getValueOrCompute r c = c"
  by (simp add: isNone_body Option_getValueOrCompute_def None_getValueOrCompute_def)

lemma absent_mapOrDefault: "isNone r \<Longrightarrow> Option_mapOrDefault r f d w = (Inr d, w)"
  by (simp add: isNone_body Option_mapOrDefault_def None_mapOrDefault_def returns_def)

lemma absent_mapOrCompute: "isNone r \<Longrightarrow> Option_mapOrCompute r f c = c"
  by (simp add: isNone_body Option_mapOrCompute_def None_mapOrCompute_def)

section \<open>Calls on a present receiver\<close>

lemma present_match: "body p = SomeLiteral v \<Longrightarrow> Option_match p some none = some v"
  by (simp add: Option_match_def Some_match_def)

lemma present_getValueOrDefault:
  "body p = SomeLiteral v \<Longrightarrow> Option_getValueOrDefault p d w = (Inr v, w)"
  by (simp add: Option_getValueOrDefault_def Some_getValueOrDefault_def returns_def)

lemma present_getValueOrCompute:
  "body p = SomeLiteral v \<Longrightarrow> Option_getValueOrCompute p c w = (Inr v, w)"
  by (simp add: Option_getValueOrCompute_def Some_getValueOrCompute_def returns_def)

lemma present_mapOrDefault: "body p = SomeLiteral v \<Longrightarrow> Option_mapOrDefault p f d = f v"
  by (simp add: Option_mapOrDefault_def Some_mapOrDefault_def)

lemma present_mapOrCompute: "body p = SomeLiteral v \<Longrightarrow> Option_mapOrCompute p f c = f v"
  by (simp add: Option_mapOrCompute_def Some_mapOrCompute_def)

lemma present_map: "body p = SomeLiteral v \<Longrightarrow> Option_map p f = seq (f v) Some_opt"
  by (simp add: Option_map_def Some_map_def)

lemma present_and: "body p = SomeLiteral v \<Longrightarrow> Option_and p other w = (Inr other, w)"
  by (simp add: Option_and_def Some_and_def returns_def)

lemma present_andThen: "body p = SomeLiteral v \<Longrightarrow> Option_andThen p f = f v"
  by (simp add: Option_andThen_def Some_andThen_def)

lemma present_or: "body p = SomeLiteral v \<Longrightarrow> Option_or p other w = (Inr p, w)"
  by (simp add: Option_or_def Some_or_def returns_def)

lemma present_orElse: "body p = SomeLiteral v \<Longrightarrow> Option_orElse p c w = (Inr p, w)"
  by (simp add: Option_orElse_def Some_orElse_def returns_def)

lemma present_filter:
  "body p = SomeLiteral v \<Longrightarrow>
   Option_filter p pred = seq (pred v) (\<lambda>b. returns (if b then p else None_opt))"
  by (simp add: Option_filter_def Some_filter_def)

section \<open>Chains of \<open>andThen\<close>\<close>

lemma andThen_chain_append:
  "andThen_chain opt (fs @ gs) = seq (andThen_chain opt fs) (\<lambda>r. andThen_chain r gs)"
proof (induction fs arbitrary: opt)
  case Nil
  show ?case by (simp add: seq_returns)
next
  case (Cons f fs)
  show ?case
    by (rule ext) (simp add: Cons.IH seq_def split: prod.split sum.split)
qed

lemma andThen_chain_absent:
  "isNone r \<Longrightarrow> andThen_chain r gs w = (Inr (if gs = [] then r else None_opt), w)"
proof (induction gs arbitrary: r)
  case Nil
  show ?case by (simp add: returns_def)
next
  case (Cons g gs)
  have step: "Option_andThen r g w = (Inr None_opt, w)"
    using Cons.prems by (rule absent_andThen)
  have rest: "andThen_chain None_opt gs w = (Inr None_opt, w)"
    using Cons.IH [OF isNone_None_opt] by simp
  have "seq (Option_andThen r g) (\<lambda>r'. andThen_chain r' gs) w = andThen_chain None_opt gs w"
    using step by (rule seq_Inr)
  then show ?case
    by (simp add: rest)
qed

section \<open>The combinators\<close>

text \<open>
  Claim C1. On a present receiver holding \<open>v\<close>, \<open>map(f)\<close> returns a present object holding
  what \<open>f(v)\<close> returned: the object \<open>Some\<close> builds next, in the world \<open>f\<close> left. On \<open>None\<close>,
  \<open>map(f)\<close> returns \<open>None\<close> and leaves the world as it was, whatever \<open>f\<close> is: \<open>f\<close> has not
  run.
\<close>

theorem map_present_and_absent:
  "(body p = SomeLiteral v \<and> f v w = (Inr u, w') \<longrightarrow>
      Option_map p f w =
        (Inr \<lparr>oid = next_oid w', body = SomeLiteral u\<rparr>, w'\<lparr>next_oid := Suc (next_oid w')\<rparr>)
      \<and> isSome \<lparr>oid = next_oid w', body = SomeLiteral u\<rparr>)
   \<and> Option_map None_opt f w = (Inr None_opt, w)"
proof (intro conjI impI)
  assume h: "body p = SomeLiteral v \<and> f v w = (Inr u, w')"
  then have "Option_map p f w = Some_opt u w'"
    by (simp add: present_map seq_Inr)
  then show "Option_map p f w =
      (Inr \<lparr>oid = next_oid w', body = SomeLiteral u\<rparr>, w'\<lparr>next_oid := Suc (next_oid w')\<rparr>)"
    by (simp add: Some_opt_apply)
next
  show "isSome \<lparr>oid = next_oid w', body = SomeLiteral u\<rparr>"
    by (simp add: isSome_def)
next
  show "Option_map None_opt f w = (Inr None_opt, w)"
    by (rule absent_map [OF isNone_None_opt])
qed

theorem map_present_and_absent_witness:
  "Option_map \<lparr>oid = 1, body = SomeLiteral (5::int)\<rparr> (counting (\<lambda>x. x * 2))
       \<lparr>next_oid = 2, user = 0\<rparr>
     = (Inr \<lparr>oid = 2, body = SomeLiteral (10::int)\<rparr> :: unit + int Option,
        \<lparr>next_oid = 3, user = 1\<rparr>)
   \<and> Option_map (None_opt :: int Option) (counting (\<lambda>x. x * 2)) \<lparr>next_oid = 2, user = 0\<rparr>
     = (Inr (None_opt :: int Option) :: unit + int Option, \<lparr>next_oid = 2, user = 0\<rparr>)"
  using map_present_and_absent
    [where p = "\<lparr>oid = 1, body = SomeLiteral (5::int)\<rparr>" and v = 5
       and f = "counting (\<lambda>x. x * 2) :: int \<Rightarrow> (nat, unit, int) js"
       and w = "\<lparr>next_oid = 2, user = 0\<rparr>" and u = 10
       and w' = "\<lparr>next_oid = 2, user = 1\<rparr>"]
  by (simp add: counting_def)

text \<open>
  Claim C3. \<open>andThen\<close> is bind: on a present receiver holding \<open>v\<close>, \<open>andThen(f)\<close> is the call
  \<open>f(v)\<close> itself, and on \<open>None\<close> it returns \<open>None\<close> without running \<open>f\<close>. A chain of
  \<open>andThen\<close> calls whose first part returned an absent object in the world \<open>w'\<close> ends in that
  same world \<open>w'\<close>, absent: none of the later callbacks has run. \<open>and\<close> returns its argument
  on a present receiver, whatever the receiver holds, and \<open>None\<close> on \<open>None\<close>.
\<close>

theorem andThen_bind_and_strict:
  "(body p = SomeLiteral v \<longrightarrow>
      Option_andThen p (f :: 'a \<Rightarrow> ('s, 'e, 'u Option) js) = f v
      \<and> Option_and p other w = ((Inr other, w) :: ('e + 'u Option) \<times> 's world))
   \<and> Option_andThen (None_opt :: 'a Option) f w = (Inr None_opt, w)
   \<and> Option_and (None_opt :: 'a Option) other w
       = ((Inr None_opt, w) :: ('e + 'u Option) \<times> 's world)
   \<and> (andThen_chain opt fs w = ((Inr r, w') :: ('e + 'a Option) \<times> 's world) \<and> isNone r \<longrightarrow>
        andThen_chain opt (fs @ gs) w = (Inr (if gs = [] then r else None_opt), w'))"
proof (intro conjI impI)
  assume "body p = SomeLiteral v"
  then show "Option_andThen p f = f v"
    by (rule present_andThen)
next
  assume "body p = SomeLiteral v"
  then show "Option_and p other w = (Inr other, w)"
    by (rule present_and)
next
  show "Option_andThen None_opt f w = (Inr None_opt, w)"
    by (rule absent_andThen [OF isNone_None_opt])
next
  show "Option_and None_opt other w = (Inr None_opt, w)"
    by (rule absent_and [OF isNone_None_opt])
next
  assume h: "andThen_chain opt fs w = (Inr r, w') \<and> isNone r"
  have "andThen_chain opt (fs @ gs) w = andThen_chain r gs w'"
    using h by (simp add: andThen_chain_append seq_Inr)
  then show "andThen_chain opt (fs @ gs) w = (Inr (if gs = [] then r else None_opt), w')"
    using h by (simp add: andThen_chain_absent)
qed

theorem andThen_bind_and_strict_witness:
  "Option_andThen \<lparr>oid = 1, body = SomeLiteral (5::int)\<rparr>
       (counting (\<lambda>x. \<lparr>oid = 1, body = SomeLiteral (x + 1)\<rparr>))
     = (counting (\<lambda>x. \<lparr>oid = 1, body = SomeLiteral (x + 1)\<rparr>) 5 :: (nat, unit, int Option) js)
   \<and> Option_and \<lparr>oid = 1, body = SomeLiteral (5::int)\<rparr> \<lparr>oid = 2, body = SomeLiteral (7::int)\<rparr>
        \<lparr>next_oid = 3, user = 0\<rparr>
     = (Inr \<lparr>oid = 2, body = SomeLiteral (7::int)\<rparr> :: unit + int Option, \<lparr>next_oid = 3, user = 0::nat\<rparr>)
   \<and> andThen_chain \<lparr>oid = 1, body = SomeLiteral (5::int)\<rparr>
        ([counting (\<lambda>x. None_opt)]
          @ [counting (\<lambda>x. \<lparr>oid = 1, body = SomeLiteral (x + 1)\<rparr>), counting (\<lambda>x. None_opt)])
        \<lparr>next_oid = 3, user = 0\<rparr>
     = (Inr (None_opt :: int Option) :: unit + int Option, \<lparr>next_oid = 3, user = 1\<rparr>)"
  using andThen_bind_and_strict
    [where p = "\<lparr>oid = 1, body = SomeLiteral (5::int)\<rparr>" and v = 5
       and f = "counting (\<lambda>x. \<lparr>oid = 1, body = SomeLiteral (x + 1)\<rparr>)
                  :: int \<Rightarrow> (nat, unit, int Option) js"
       and other = "\<lparr>oid = 2, body = SomeLiteral (7::int)\<rparr>"
       and w = "\<lparr>next_oid = 3, user = 0\<rparr>"
       and opt = "\<lparr>oid = 1, body = SomeLiteral (5::int)\<rparr>"
       and fs = "[counting (\<lambda>x. None_opt)]"
       and r = "None_opt"
       and w' = "\<lparr>next_oid = 3, user = 1\<rparr>"
       and gs = "[counting (\<lambda>x. \<lparr>oid = 1, body = SomeLiteral (x + 1)\<rparr>), counting (\<lambda>x. None_opt)]"]
  by (simp add: counting_def Option_andThen_def Some_andThen_def None_andThen_def seq_def
        returns_def isNone_def None_opt_def)

text \<open>
  Claim C4. On a present receiver \<open>p\<close>, \<open>or\<close> and \<open>orElse\<close> return \<open>p\<close> itself (the same
  object) and leave the world as it was, whatever the argument: the callback of \<open>orElse\<close> has
  not run. On \<open>None\<close>, \<open>or(x)\<close> returns \<open>x\<close> and \<open>orElse(c)\<close> is the call \<open>c()\<close>.
\<close>

theorem or_orElse_laws:
  "(body p = SomeLiteral v \<longrightarrow>
      Option_or p x w = ((Inr p, w) :: ('e + 'a Option) \<times> 's world)
      \<and> Option_orElse p c w = (Inr p, w))
   \<and> Option_or None_opt x w = ((Inr x, w) :: ('e + 'a Option) \<times> 's world)
   \<and> Option_orElse None_opt (c :: ('s, 'e, 'a Option) js) = c"
proof (intro conjI impI)
  assume "body p = SomeLiteral v"
  then show "Option_or p x w = ((Inr p, w) :: ('e + 'a Option) \<times> 's world)"
    by (rule present_or)
next
  assume "body p = SomeLiteral v"
  then show "Option_orElse p c w = (Inr p, w)"
    by (rule present_orElse)
next
  show "Option_or None_opt x w = ((Inr x, w) :: ('e + 'a Option) \<times> 's world)"
    by (rule absent_or [OF isNone_None_opt])
next
  show "Option_orElse None_opt c = c"
    by (rule absent_orElse [OF isNone_None_opt])
qed

theorem or_orElse_laws_witness:
  "Option_or \<lparr>oid = 1, body = SomeLiteral (5::int)\<rparr> \<lparr>oid = 2, body = SomeLiteral 7\<rparr>
       \<lparr>next_oid = 3, user = 0\<rparr>
     = (Inr \<lparr>oid = 1, body = SomeLiteral 5\<rparr> :: unit + int Option, \<lparr>next_oid = 3, user = 0::nat\<rparr>)
   \<and> Option_orElse \<lparr>oid = 1, body = SomeLiteral (5::int)\<rparr>
       (counting_thunk \<lparr>oid = 2, body = SomeLiteral 7\<rparr>) \<lparr>next_oid = 3, user = 0\<rparr>
     = (Inr \<lparr>oid = 1, body = SomeLiteral 5\<rparr> :: unit + int Option, \<lparr>next_oid = 3, user = 0\<rparr>)
   \<and> Option_or None_opt \<lparr>oid = 2, body = SomeLiteral (7::int)\<rparr> \<lparr>next_oid = 3, user = 0\<rparr>
     = (Inr \<lparr>oid = 2, body = SomeLiteral 7\<rparr> :: unit + int Option, \<lparr>next_oid = 3, user = 0::nat\<rparr>)
   \<and> Option_orElse None_opt (counting_thunk \<lparr>oid = 2, body = SomeLiteral (7::int)\<rparr>)
       \<lparr>next_oid = 3, user = 0\<rparr>
     = (Inr \<lparr>oid = 2, body = SomeLiteral 7\<rparr> :: unit + int Option, \<lparr>next_oid = 3, user = 1\<rparr>)"
  using or_orElse_laws
    [where p = "\<lparr>oid = 1, body = SomeLiteral (5::int)\<rparr>" and v = 5
       and x = "\<lparr>oid = 2, body = SomeLiteral 7\<rparr>"
       and c = "counting_thunk \<lparr>oid = 2, body = SomeLiteral 7\<rparr> :: (nat, unit, int Option) js"
       and w = "\<lparr>next_oid = 3, user = 0\<rparr>"]
  by (simp add: counting_thunk_def)

text \<open>
  Claim C5. On a present receiver \<open>p\<close> holding \<open>v\<close>, \<open>filter(pred)\<close> returns \<open>p\<close> itself when
  \<open>pred(v)\<close> returned true and \<open>None\<close> when it returned false. On \<open>None\<close> it returns \<open>None\<close>
  and leaves the world as it was, whatever \<open>pred\<close> is: \<open>pred\<close> has not run.
\<close>

theorem filter_laws:
  "(body p = SomeLiteral v \<and> pred v w = (Inr b, w') \<longrightarrow>
      Option_filter p pred w = (Inr (if b then p else None_opt), w'))
   \<and> Option_filter None_opt pred w = (Inr None_opt, w)"
proof (intro conjI impI)
  assume h: "body p = SomeLiteral v \<and> pred v w = (Inr b, w')"
  then show "Option_filter p pred w = (Inr (if b then p else None_opt), w')"
    by (simp add: present_filter seq_Inr returns_def)
next
  show "Option_filter None_opt pred w = (Inr None_opt, w)"
    by (rule absent_filter [OF isNone_None_opt])
qed

theorem filter_laws_witness:
  "Option_filter \<lparr>oid = 1, body = SomeLiteral (8::int)\<rparr> (counting (\<lambda>x. 5 < x))
       \<lparr>next_oid = 2, user = 0\<rparr>
     = (Inr \<lparr>oid = 1, body = SomeLiteral 8\<rparr> :: unit + int Option, \<lparr>next_oid = 2, user = 1\<rparr>)
   \<and> Option_filter \<lparr>oid = 1, body = SomeLiteral (4::int)\<rparr> (counting (\<lambda>x. 5 < x))
       \<lparr>next_oid = 2, user = 0\<rparr>
     = (Inr None_opt :: unit + int Option, \<lparr>next_oid = 2, user = 1\<rparr>)
   \<and> Option_filter (None_opt :: int Option) (counting (\<lambda>x. 5 < x)) \<lparr>next_oid = 2, user = 0\<rparr>
     = (Inr None_opt :: unit + int Option, \<lparr>next_oid = 2, user = 0\<rparr>)"
  using filter_laws
    [where p = "\<lparr>oid = 1, body = SomeLiteral (8::int)\<rparr>" and v = 8
       and pred = "counting (\<lambda>x. 5 < x) :: int \<Rightarrow> (nat, unit, bool) js"
       and w = "\<lparr>next_oid = 2, user = 0\<rparr>" and b = True
       and w' = "\<lparr>next_oid = 2, user = 1\<rparr>"]
    filter_laws
    [where p = "\<lparr>oid = 1, body = SomeLiteral (4::int)\<rparr>" and v = 4
       and pred = "counting (\<lambda>x. 5 < x) :: int \<Rightarrow> (nat, unit, bool) js"
       and w = "\<lparr>next_oid = 2, user = 0\<rparr>" and b = False
       and w' = "\<lparr>next_oid = 2, user = 1\<rparr>"]
  by (simp add: counting_def)

text \<open>
  Claim C6. On a present receiver holding \<open>v\<close>: \<open>getValueOrDefault\<close> and \<open>getValueOrCompute\<close>
  return \<open>v\<close> and leave the world as it was (the compute callback has not run);
  \<open>mapOrDefault\<close> and \<open>mapOrCompute\<close> are the call \<open>f(v)\<close> itself (the compute callback has not
  run). On \<open>None\<close>: \<open>getValueOrDefault(d)\<close> and \<open>mapOrDefault(f, d)\<close> return \<open>d\<close> and leave the
  world as it was (\<open>f\<close> has not run); \<open>getValueOrCompute(c)\<close> and \<open>mapOrCompute(f, c)\<close> are the
  call \<open>c()\<close> itself (\<open>f\<close> has not run).
\<close>

theorem defaulting_laws:
  "(body p = SomeLiteral v \<longrightarrow>
      Option_getValueOrDefault p d w = ((Inr v, w) :: ('e + 'a) \<times> 's world)
      \<and> Option_getValueOrCompute p c w = (Inr v, w)
      \<and> Option_mapOrDefault p f d' = f v
      \<and> Option_mapOrCompute p f c' = f v)
   \<and> Option_getValueOrDefault None_opt d w = ((Inr d, w) :: ('e + 'a) \<times> 's world)
   \<and> Option_getValueOrCompute None_opt (c :: ('s, 'e, 'a) js) = c
   \<and> Option_mapOrDefault (None_opt :: 'a Option) (f :: 'a \<Rightarrow> ('s, 'e, 'u) js) d' w = (Inr d', w)
   \<and> Option_mapOrCompute (None_opt :: 'a Option) f c' = c'"
proof (intro conjI impI)
  assume "body p = SomeLiteral v"
  then show "Option_getValueOrDefault p d w = ((Inr v, w) :: ('e + 'a) \<times> 's world)"
    by (rule present_getValueOrDefault)
next
  assume "body p = SomeLiteral v"
  then show "Option_getValueOrCompute p c w = (Inr v, w)"
    by (rule present_getValueOrCompute)
next
  assume "body p = SomeLiteral v"
  then show "Option_mapOrDefault p f d' = f v"
    by (rule present_mapOrDefault)
next
  assume "body p = SomeLiteral v"
  then show "Option_mapOrCompute p f c' = f v"
    by (rule present_mapOrCompute)
next
  show "Option_getValueOrDefault None_opt d w = ((Inr d, w) :: ('e + 'a) \<times> 's world)"
    by (rule absent_getValueOrDefault [OF isNone_None_opt])
next
  show "Option_getValueOrCompute None_opt c = c"
    by (rule absent_getValueOrCompute [OF isNone_None_opt])
next
  show "Option_mapOrDefault (None_opt :: 'a Option) f d' w = (Inr d', w)"
    by (rule absent_mapOrDefault [OF isNone_None_opt])
next
  show "Option_mapOrCompute (None_opt :: 'a Option) f c' = c'"
    by (rule absent_mapOrCompute [OF isNone_None_opt])
qed

theorem defaulting_laws_witness:
  "Option_getValueOrDefault \<lparr>oid = 1, body = SomeLiteral (5::int)\<rparr> 10 \<lparr>next_oid = 2, user = 0\<rparr>
     = (Inr 5 :: unit + int, \<lparr>next_oid = 2, user = 0::nat\<rparr>)
   \<and> Option_getValueOrCompute \<lparr>oid = 1, body = SomeLiteral (5::int)\<rparr> (counting_thunk 10)
        \<lparr>next_oid = 2, user = 0\<rparr>
     = (Inr 5 :: unit + int, \<lparr>next_oid = 2, user = 0\<rparr>)
   \<and> Option_mapOrDefault \<lparr>oid = 1, body = SomeLiteral (5::int)\<rparr> (counting (\<lambda>x. 0 < x)) False
        \<lparr>next_oid = 2, user = 0\<rparr>
     = (Inr True :: unit + bool, \<lparr>next_oid = 2, user = 1\<rparr>)
   \<and> Option_mapOrCompute \<lparr>oid = 1, body = SomeLiteral (5::int)\<rparr> (counting (\<lambda>x. 0 < x))
        (counting_thunk False) \<lparr>next_oid = 2, user = 0\<rparr>
     = (Inr True :: unit + bool, \<lparr>next_oid = 2, user = 1\<rparr>)
   \<and> Option_getValueOrDefault None_opt (10::int) \<lparr>next_oid = 2, user = 0\<rparr>
     = (Inr 10 :: unit + int, \<lparr>next_oid = 2, user = 0::nat\<rparr>)
   \<and> Option_getValueOrCompute None_opt (counting_thunk (10::int)) \<lparr>next_oid = 2, user = 0\<rparr>
     = (Inr 10 :: unit + int, \<lparr>next_oid = 2, user = 1\<rparr>)
   \<and> Option_mapOrDefault (None_opt :: int Option) (counting (\<lambda>x. 0 < x)) False
        \<lparr>next_oid = 2, user = 0\<rparr>
     = (Inr False :: unit + bool, \<lparr>next_oid = 2, user = 0\<rparr>)
   \<and> Option_mapOrCompute (None_opt :: int Option) (counting (\<lambda>x. 0 < x)) (counting_thunk False)
        \<lparr>next_oid = 2, user = 0\<rparr>
     = (Inr False :: unit + bool, \<lparr>next_oid = 2, user = 1\<rparr>)"
  using defaulting_laws
    [where p = "\<lparr>oid = 1, body = SomeLiteral (5::int)\<rparr>" and v = 5 and d = 10
       and c = "counting_thunk 10 :: (nat, unit, int) js"
       and f = "counting (\<lambda>x. 0 < x) :: int \<Rightarrow> (nat, unit, bool) js"
       and d' = False
       and c' = "counting_thunk False :: (nat, unit, bool) js"
       and w = "\<lparr>next_oid = 2, user = 0\<rparr>"]
  by (simp add: counting_def counting_thunk_def)

section \<open>The conversion utilities\<close>

lemma fromValue_apply:
  "fromValue v w =
     (if v = JNull \<or> v = JUndefined then (Inr None_opt, w)
      else (Inr \<lparr>oid = next_oid w, body = SomeLiteral v\<rparr>, w\<lparr>next_oid := Suc (next_oid w)\<rparr>))"
  by (simp add: fromValue_def returns_def Some_opt_def)

lemma fromNullable_apply:
  "fromNullable v w =
     (if v = JNull then (Inr None_opt, w)
      else (Inr \<lparr>oid = next_oid w, body = SomeLiteral v\<rparr>, w\<lparr>next_oid := Suc (next_oid w)\<rparr>))"
  by (simp add: fromNullable_def returns_def Some_opt_def)

lemma fromUndefinable_apply:
  "fromUndefinable v w =
     (if v = JUndefined then (Inr None_opt, w)
      else (Inr \<lparr>oid = next_oid w, body = SomeLiteral v\<rparr>, w\<lparr>next_oid := Suc (next_oid w)\<rparr>))"
  by (simp add: fromUndefinable_def returns_def Some_opt_def)

lemma fromValueConditional_apply:
  "isNoneP x w = (Inr b, w') \<Longrightarrow>
   fromValueConditional x isNoneP w =
     (if b then (Inr None_opt, w')
      else (Inr \<lparr>oid = next_oid w', body = SomeLiteral x\<rparr>, w'\<lparr>next_oid := Suc (next_oid w')\<rparr>))"
  by (simp add: fromValueConditional_def seq_def returns_def Some_opt_def)

lemma createOptionFactory_eq:
  "createOptionFactory isNoneP = (\<lambda>x. fromValueConditional x isNoneP)"
  by (simp add: createOptionFactory_def fromValueConditional_def)

lemma isSome_object: "isSome \<lparr>oid = n, body = SomeLiteral v\<rparr>"
  by (simp add: isSome_def)

lemma not_isNone_object: "\<not> isNone \<lparr>oid = n, body = SomeLiteral v\<rparr>"
  by (simp add: isNone_def)

text \<open>
  Claim C7. \<open>fromValue(v)\<close> returns \<open>None\<close> exactly when \<open>v\<close> is \<open>null\<close> or \<open>undefined\<close>,
  \<open>fromNullable(v)\<close> exactly when \<open>v\<close> is \<open>null\<close>, \<open>fromUndefinable(v)\<close> exactly when \<open>v\<close> is
  \<open>undefined\<close>; otherwise each returns the object \<open>Some(v)\<close> builds, which is present and
  holds \<open>v\<close> itself.
\<close>

theorem conversion_sentinels:
  "fromValue v w =
     (if v = JNull \<or> v = JUndefined then (Inr None_opt, w)
      else ((Inr \<lparr>oid = next_oid w, body = SomeLiteral v\<rparr>, w\<lparr>next_oid := Suc (next_oid w)\<rparr>)
             :: ('e + 'a jsval Option) \<times> 's world))
   \<and> fromNullable v w =
     (if v = JNull then (Inr None_opt, w)
      else ((Inr \<lparr>oid = next_oid w, body = SomeLiteral v\<rparr>, w\<lparr>next_oid := Suc (next_oid w)\<rparr>)
             :: ('e + 'a jsval Option) \<times> 's world))
   \<and> fromUndefinable v w =
     (if v = JUndefined then (Inr None_opt, w)
      else ((Inr \<lparr>oid = next_oid w, body = SomeLiteral v\<rparr>, w\<lparr>next_oid := Suc (next_oid w)\<rparr>)
             :: ('e + 'a jsval Option) \<times> 's world))
   \<and> isNone (None_opt :: 'a jsval Option)
   \<and> isSome \<lparr>oid = next_oid w, body = SomeLiteral v\<rparr>
   \<and> \<not> isNone \<lparr>oid = next_oid w, body = SomeLiteral v\<rparr>"
proof (intro conjI)
  show "fromValue v w =
     (if v = JNull \<or> v = JUndefined then (Inr None_opt, w)
      else ((Inr \<lparr>oid = next_oid w, body = SomeLiteral v\<rparr>, w\<lparr>next_oid := Suc (next_oid w)\<rparr>)
             :: ('e + 'a jsval Option) \<times> 's world))"
    by (rule fromValue_apply)
  show "fromNullable v w =
     (if v = JNull then (Inr None_opt, w)
      else ((Inr \<lparr>oid = next_oid w, body = SomeLiteral v\<rparr>, w\<lparr>next_oid := Suc (next_oid w)\<rparr>)
             :: ('e + 'a jsval Option) \<times> 's world))"
    by (rule fromNullable_apply)
  show "fromUndefinable v w =
     (if v = JUndefined then (Inr None_opt, w)
      else ((Inr \<lparr>oid = next_oid w, body = SomeLiteral v\<rparr>, w\<lparr>next_oid := Suc (next_oid w)\<rparr>)
             :: ('e + 'a jsval Option) \<times> 's world))"
    by (rule fromUndefinable_apply)
  show "isNone (None_opt :: 'a jsval Option)"
    by (rule isNone_None_opt)
  show "isSome \<lparr>oid = next_oid w, body = SomeLiteral v\<rparr>"
    by (rule isSome_object)
  show "\<not> isNone \<lparr>oid = next_oid w, body = SomeLiteral v\<rparr>"
    by (rule not_isNone_object)
qed

theorem conversion_sentinels_witness:
  "fromValue (JNull :: int jsval) (world0 ()) = (Inr None_opt :: unit + int jsval Option, world0 ())
   \<and> fromValue (JOther (5::int)) (world0 ())
     = (Inr \<lparr>oid = 1, body = SomeLiteral (JOther 5)\<rparr> :: unit + int jsval Option,
        \<lparr>next_oid = 2, user = ()\<rparr>)
   \<and> fromNullable (JUndefined :: int jsval) (world0 ())
     = (Inr \<lparr>oid = 1, body = SomeLiteral JUndefined\<rparr> :: unit + int jsval Option,
        \<lparr>next_oid = 2, user = ()\<rparr>)
   \<and> fromUndefinable (JNull :: int jsval) (world0 ())
     = (Inr \<lparr>oid = 1, body = SomeLiteral JNull\<rparr> :: unit + int jsval Option,
        \<lparr>next_oid = 2, user = ()\<rparr>)"
  using conversion_sentinels [where 'e = unit and v = "JNull :: int jsval" and w = "world0 ()"]
    conversion_sentinels [where 'e = unit and v = "JOther (5::int)" and w = "world0 ()"]
    conversion_sentinels [where 'e = unit and v = "JUndefined :: int jsval" and w = "world0 ()"]
  by (simp add: world0_def)

text \<open>
  Claim C8. The function \<open>createOptionFactory(p)\<close> returns is \<open>fromValueConditional\<close> with the
  predicate fixed to \<open>p\<close>: the same computation at every input. Where \<open>p(x)\<close> returned \<open>b\<close>,
  it returns \<open>None\<close> if \<open>b\<close> is true and the object \<open>Some(x)\<close> builds otherwise.
\<close>

theorem factory_is_partial_application:
  "createOptionFactory isNoneP = (\<lambda>x. fromValueConditional x isNoneP)
   \<and> (isNoneP x w = (Inr b, w') \<longrightarrow>
        createOptionFactory isNoneP x w =
          (if b then (Inr None_opt, w')
           else (Inr \<lparr>oid = next_oid w', body = SomeLiteral x\<rparr>,
                 w'\<lparr>next_oid := Suc (next_oid w')\<rparr>)))"
proof (intro conjI impI)
  show "createOptionFactory isNoneP = (\<lambda>x. fromValueConditional x isNoneP)"
    by (rule createOptionFactory_eq)
next
  assume "isNoneP x w = (Inr b, w')"
  then show "createOptionFactory isNoneP x w =
          (if b then (Inr None_opt, w')
           else (Inr \<lparr>oid = next_oid w', body = SomeLiteral x\<rparr>,
                 w'\<lparr>next_oid := Suc (next_oid w')\<rparr>))"
    by (simp only: createOptionFactory_eq fromValueConditional_apply)
qed

theorem factory_is_partial_application_witness:
  "createOptionFactory (counting (\<lambda>x. x < (0::int))) (- 1) \<lparr>next_oid = 1, user = 0\<rparr>
     = (Inr None_opt :: unit + int Option, \<lparr>next_oid = 1, user = 1\<rparr>)
   \<and> createOptionFactory (counting (\<lambda>x. x < (0::int))) 5 \<lparr>next_oid = 1, user = 0\<rparr>
     = (Inr \<lparr>oid = 1, body = SomeLiteral 5\<rparr> :: unit + int Option, \<lparr>next_oid = 2, user = 1\<rparr>)"
proof -
  let ?P = "counting (\<lambda>x. x < (0::int)) :: int \<Rightarrow> (nat, unit, bool) js"
  have a: "?P (- 1) \<lparr>next_oid = 1, user = 0\<rparr> = (Inr True, \<lparr>next_oid = 1, user = 1\<rparr>)"
    by (simp add: counting_def)
  have b: "?P 5 \<lparr>next_oid = 1, user = 0\<rparr> = (Inr False, \<lparr>next_oid = 1, user = 1\<rparr>)"
    by (simp add: counting_def)
  have absent: "createOptionFactory ?P (- 1) \<lparr>next_oid = 1, user = 0\<rparr>
      = (Inr None_opt, \<lparr>next_oid = 1, user = 1\<rparr>)"
    using factory_is_partial_application
      [where isNoneP = ?P and x = "- 1" and w = "\<lparr>next_oid = 1, user = 0\<rparr>" and b = True
         and w' = "\<lparr>next_oid = 1, user = 1\<rparr>", THEN conjunct2] a
    by simp
  have present: "createOptionFactory ?P 5 \<lparr>next_oid = 1, user = 0\<rparr>
      = (Inr \<lparr>oid = 1, body = SomeLiteral 5\<rparr>, \<lparr>next_oid = 2, user = 1\<rparr>)"
    using factory_is_partial_application
      [where isNoneP = ?P and x = 5 and w = "\<lparr>next_oid = 1, user = 0\<rparr>" and b = False
         and w' = "\<lparr>next_oid = 1, user = 1\<rparr>", THEN conjunct2] b
    by simp
  show ?thesis
    using absent present by simp
qed

section \<open>The identity of absent results\<close>

lemma Some_filter_absent_result:
  "body p = SomeLiteral v \<Longrightarrow> Option_filter p pred w = (Inr r, w') \<Longrightarrow> isNone r \<Longrightarrow> r = None_opt"
  by (auto simp: present_filter seq_def returns_def isNone_body
           split: prod.splits sum.splits if_splits)

lemma fromValue_absent_result:
  "fromValue v w = (Inr r, w') \<Longrightarrow> isNone r \<Longrightarrow> r = None_opt"
  by (auto simp: fromValue_apply isNone_body split: if_splits)

lemma fromNullable_absent_result:
  "fromNullable v w = (Inr r, w') \<Longrightarrow> isNone r \<Longrightarrow> r = None_opt"
  by (auto simp: fromNullable_apply isNone_body split: if_splits)

lemma fromUndefinable_absent_result:
  "fromUndefinable v w = (Inr r, w') \<Longrightarrow> isNone r \<Longrightarrow> r = None_opt"
  by (auto simp: fromUndefinable_apply isNone_body split: if_splits)

lemma fromValueConditional_absent_result:
  "fromValueConditional x isNoneP w = (Inr r, w') \<Longrightarrow> isNone r \<Longrightarrow> r = None_opt"
  by (auto simp: fromValueConditional_def seq_def returns_def Some_opt_def isNone_body
           split: prod.splits sum.splits if_splits)

lemma Some_filter_reject:
  "body p = SomeLiteral x \<Longrightarrow> pred x w = (Inr False, w') \<Longrightarrow>
   Option_filter p pred w = (Inr None_opt, w')"
  by (simp add: present_filter seq_def returns_def)

lemma fromValueConditional_absent_branch:
  "isNoneP y w = (Inr True, w') \<Longrightarrow> fromValueConditional y isNoneP w = (Inr None_opt, w')"
  by (simp add: fromValueConditional_apply)

lemma createOptionFactory_absent_branch:
  "isNoneP y w = (Inr True, w') \<Longrightarrow> createOptionFactory isNoneP y w = (Inr None_opt, w')"
  by (simp add: createOptionFactory_eq fromValueConditional_absent_branch)

lemma fromValue_absent_branch:
  "fromValue JNull w = (Inr None_opt, w)" "fromValue JUndefined w = (Inr None_opt, w)"
  by (simp_all add: fromValue_apply)

lemma fromNullable_absent_branch: "fromNullable JNull w = (Inr None_opt, w)"
  by (simp add: fromNullable_apply)

lemma fromUndefinable_absent_branch: "fromUndefinable JUndefined w = (Inr None_opt, w)"
  by (simp add: fromUndefinable_apply)

lemma listed_outcome_absent:
  assumes "listed_outcome (Inr r, w1)" and "isNone r"
  shows "r = None_opt"
  using assms(1)
proof (cases rule: listed_outcome.cases)
  case (of_None_map f w)
  then show ?thesis by (simp add: absent_map isNone_None_opt)
next
  case (of_None_and other w)
  then show ?thesis by (simp add: absent_and isNone_None_opt)
next
  case (of_None_andThen g w)
  then show ?thesis by (simp add: absent_andThen isNone_None_opt)
next
  case (of_None_filter pred w)
  then show ?thesis by (simp add: absent_filter isNone_None_opt)
next
  case (of_Some_filter p x pred w)
  from of_Some_filter(2) of_Some_filter(1) [symmetric] assms(2) show ?thesis
    by (rule Some_filter_absent_result)
next
  case (of_fromValue v w)
  from of_fromValue [symmetric] assms(2) show ?thesis
    by (rule fromValue_absent_result)
next
  case (of_fromValueConditional y isNoneP w)
  from of_fromValueConditional [symmetric] assms(2) show ?thesis
    by (rule fromValueConditional_absent_result)
next
  case (of_fromNullable v w)
  from of_fromNullable [symmetric] assms(2) show ?thesis
    by (rule fromNullable_absent_result)
next
  case (of_fromUndefinable v w)
  from of_fromUndefinable [symmetric] assms(2) show ?thesis
    by (rule fromUndefinable_absent_result)
next
  case (of_createOptionFactory isNoneP y w)
  from of_createOptionFactory [symmetric, unfolded createOptionFactory_eq] assms(2)
  show ?thesis
    by (rule fromValueConditional_absent_result)
qed

text \<open>
  Claim C10. \<open>map\<close>, \<open>and\<close>, \<open>andThen\<close> and \<open>filter\<close> of \<open>None\<close> return the object \<open>None\<close>
  (identity 0) and build no object. \<open>filter\<close> on a present receiver returns the object
  \<open>None\<close> when the predicate returned false. Each conversion utility returns the object
  \<open>None\<close> on its absent branch: \<open>fromValue\<close> at \<open>null\<close> and at \<open>undefined\<close>, \<open>fromNullable\<close>
  at \<open>null\<close>, \<open>fromUndefinable\<close> at \<open>undefined\<close>, \<open>fromValueConditional\<close> and the factory of
  \<open>createOptionFactory\<close> where the predicate returned true. Conversely, whenever one of these
  operations returns an absent object, that object is \<open>None\<close> itself; so any two absent
  results of these operations, at any arguments and in any worlds, are one and the same object.
\<close>

theorem absent_result_is_None:
  "Option_map (None_opt :: 'a Option) (f :: 'a \<Rightarrow> ('s, 'e, 'u) js) w = (Inr None_opt, w)
   \<and> Option_and (None_opt :: 'a Option) (other :: 'a Option) w
       = ((Inr None_opt, w) :: ('e + 'a Option) \<times> 's world)
   \<and> Option_andThen (None_opt :: 'a Option) (g :: 'a \<Rightarrow> ('s, 'e, 'a Option) js) w
       = (Inr None_opt, w)
   \<and> Option_filter (None_opt :: 'a Option) (pred :: 'a \<Rightarrow> ('s, 'e, bool) js) w
       = (Inr None_opt, w)
   \<and> (body p = SomeLiteral x \<and> pred x w = (Inr False, w')
        \<longrightarrow> Option_filter p pred w = (Inr None_opt, w'))
   \<and> (isNoneP y w = (Inr True, w')
        \<longrightarrow> fromValueConditional y isNoneP w = (Inr (None_opt :: 'a Option), w')
          \<and> createOptionFactory isNoneP y w = (Inr None_opt, w'))
   \<and> fromValue JNull w = ((Inr None_opt, w) :: ('e + 'a jsval Option) \<times> 's world)
   \<and> fromValue JUndefined w = ((Inr None_opt, w) :: ('e + 'a jsval Option) \<times> 's world)
   \<and> fromNullable JNull w = ((Inr None_opt, w) :: ('e + 'a jsval Option) \<times> 's world)
   \<and> fromUndefinable JUndefined w = ((Inr None_opt, w) :: ('e + 'a jsval Option) \<times> 's world)
   \<and> (body p = SomeLiteral x \<and> Option_filter p pred w = (Inr r, w') \<and> isNone r
        \<longrightarrow> r = None_opt)
   \<and> (fromValueConditional y isNoneP w = (Inr r, w') \<and> isNone r \<longrightarrow> r = None_opt)
   \<and> (createOptionFactory isNoneP y w = (Inr r, w') \<and> isNone r \<longrightarrow> r = None_opt)
   \<and> (fromValue v w = ((Inr q, w'') :: ('e + 'a jsval Option) \<times> 's world) \<and> isNone q
        \<longrightarrow> q = None_opt)
   \<and> (fromNullable v w = ((Inr q, w'') :: ('e + 'a jsval Option) \<times> 's world) \<and> isNone q
        \<longrightarrow> q = None_opt)
   \<and> (fromUndefinable v' w = ((Inr q, w'') :: ('e + 'a jsval Option) \<times> 's world) \<and> isNone q
        \<longrightarrow> q = None_opt)
   \<and> (listed_outcome ((Inr r1, w1) :: ('e + 'a jsval Option) \<times> 's world) \<and> isNone r1
        \<longrightarrow> r1 = None_opt)
   \<and> (listed_outcome ((Inr r1, w1) :: ('e + 'a jsval Option) \<times> 's world)
        \<and> listed_outcome ((Inr r2, w2) :: ('e + 'a jsval Option) \<times> 's world)
        \<and> isNone r1 \<and> isNone r2
        \<longrightarrow> r1 = r2)"
proof -
  have m1: "Option_map (None_opt :: 'a Option) f w = (Inr None_opt, w)"
    by (rule absent_map [OF isNone_None_opt])
  have m2: "Option_and (None_opt :: 'a Option) other w
       = ((Inr None_opt, w) :: ('e + 'a Option) \<times> 's world)"
    by (rule absent_and [OF isNone_None_opt])
  have m3: "Option_andThen (None_opt :: 'a Option) g w = (Inr None_opt, w)"
    by (rule absent_andThen [OF isNone_None_opt])
  have m4: "Option_filter (None_opt :: 'a Option) pred w = (Inr None_opt, w)"
    by (rule absent_filter [OF isNone_None_opt])
  have d1: "body p = SomeLiteral x \<and> pred x w = (Inr False, w')
        \<longrightarrow> Option_filter p pred w = (Inr None_opt, w')"
    by (blast intro: Some_filter_reject)
  have d2: "isNoneP y w = (Inr True, w')
        \<longrightarrow> fromValueConditional y isNoneP w = (Inr (None_opt :: 'a Option), w')
          \<and> createOptionFactory isNoneP y w = (Inr None_opt, w')"
    by (simp add: fromValueConditional_absent_branch createOptionFactory_absent_branch)
  have c1: "body p = SomeLiteral x \<and> Option_filter p pred w = (Inr r, w') \<and> isNone r
        \<longrightarrow> r = None_opt"
    by (blast intro: Some_filter_absent_result)
  have c2: "fromValueConditional y isNoneP w = (Inr r, w') \<and> isNone r \<longrightarrow> r = None_opt"
    by (blast intro: fromValueConditional_absent_result)
  have c3: "createOptionFactory isNoneP y w = (Inr r, w') \<and> isNone r \<longrightarrow> r = None_opt"
    unfolding createOptionFactory_eq by (rule c2)
  have c4: "fromValue v w = ((Inr q, w'') :: ('e + 'a jsval Option) \<times> 's world) \<and> isNone q
        \<longrightarrow> q = None_opt"
    by (blast intro: fromValue_absent_result)
  have c5: "fromNullable v w = ((Inr q, w'') :: ('e + 'a jsval Option) \<times> 's world) \<and> isNone q
        \<longrightarrow> q = None_opt"
    by (blast intro: fromNullable_absent_result)
  have c6: "fromUndefinable v' w = ((Inr q, w'') :: ('e + 'a jsval Option) \<times> 's world) \<and> isNone q
        \<longrightarrow> q = None_opt"
    by (blast intro: fromUndefinable_absent_result)
  have l1: "listed_outcome ((Inr r1, w1) :: ('e + 'a jsval Option) \<times> 's world) \<and> isNone r1
        \<longrightarrow> r1 = None_opt"
    by (blast intro: listed_outcome_absent)
  have l2: "listed_outcome ((Inr r1, w1) :: ('e + 'a jsval Option) \<times> 's world)
        \<and> listed_outcome ((Inr r2, w2) :: ('e + 'a jsval Option) \<times> 's world)
        \<and> isNone r1 \<and> isNone r2
        \<longrightarrow> r1 = r2"
  proof (intro impI)
    assume h: "listed_outcome ((Inr r1, w1) :: ('e + 'a jsval Option) \<times> 's world)
        \<and> listed_outcome ((Inr r2, w2) :: ('e + 'a jsval Option) \<times> 's world)
        \<and> isNone r1 \<and> isNone r2"
    then have "r1 = None_opt" and "r2 = None_opt"
      by (blast intro: listed_outcome_absent)+
    then show "r1 = r2" by simp
  qed
  show ?thesis
    by (intro conjI)
      (rule m1 m2 m3 m4 d1 d2 fromValue_absent_branch fromNullable_absent_branch
        fromUndefinable_absent_branch c1 c2 c3 c4 c5 c6 l1 l2)+
qed

theorem absent_result_is_None_witness:
  "Option_filter \<lparr>oid = 1, body = SomeLiteral (4::int)\<rparr> (counting (\<lambda>x. 5 < x))
       \<lparr>next_oid = 2, user = 0\<rparr>
     = (Inr \<lparr>oid = 0, body = NoneLiteral\<rparr> :: unit + int Option, \<lparr>next_oid = 2, user = 1\<rparr>)
   \<and> fromValueConditional (4::int) (counting (\<lambda>x. x < 5)) \<lparr>next_oid = 2, user = 0\<rparr>
     = (Inr \<lparr>oid = 0, body = NoneLiteral\<rparr> :: unit + int Option, \<lparr>next_oid = 2, user = 1\<rparr>)
   \<and> createOptionFactory (counting (\<lambda>x. x < 5)) (4::int) \<lparr>next_oid = 2, user = 0\<rparr>
     = (Inr \<lparr>oid = 0, body = NoneLiteral\<rparr> :: unit + int Option, \<lparr>next_oid = 2, user = 1\<rparr>)
   \<and> fromValue (JNull :: int jsval) \<lparr>next_oid = 2, user = 0\<rparr>
     = (Inr \<lparr>oid = 0, body = NoneLiteral\<rparr> :: unit + int jsval Option,
        \<lparr>next_oid = 2, user = 0::nat\<rparr>)
   \<and> fromNullable (JNull :: int jsval) \<lparr>next_oid = 2, user = 0\<rparr>
     = (Inr \<lparr>oid = 0, body = NoneLiteral\<rparr> :: unit + int jsval Option,
        \<lparr>next_oid = 2, user = 0::nat\<rparr>)
   \<and> fromUndefinable (JUndefined :: int jsval) \<lparr>next_oid = 2, user = 0\<rparr>
     = (Inr \<lparr>oid = 0, body = NoneLiteral\<rparr> :: unit + int jsval Option,
        \<lparr>next_oid = 2, user = 0::nat\<rparr>)
   \<and> isNone \<lparr>oid = 0, body = NoneLiteral :: int literal\<rparr>
   \<and> \<lparr>oid = 0, body = NoneLiteral\<rparr> = (None_opt :: int Option)
   \<and> \<lparr>oid = 0, body = NoneLiteral\<rparr> = (None_opt :: int jsval Option)
   \<and> listed_outcome ((Inr \<lparr>oid = 0, body = NoneLiteral\<rparr>, \<lparr>next_oid = 2, user = 0\<rparr>)
         :: (unit + int jsval Option) \<times> nat world)
   \<and> listed_outcome ((Inr \<lparr>oid = 0, body = NoneLiteral\<rparr>, \<lparr>next_oid = 2, user = 1\<rparr>)
         :: (unit + int jsval Option) \<times> nat world)"
proof -
  have a: "listed_outcome ((Inr \<lparr>oid = 0, body = NoneLiteral\<rparr>, \<lparr>next_oid = 2, user = 0\<rparr>)
         :: (unit + int jsval Option) \<times> nat world)"
    using of_fromValue
      [where 'e = unit and v = "JNull :: int jsval" and w = "\<lparr>next_oid = 2, user = 0::nat\<rparr>"]
    by (simp add: fromValue_def returns_def None_opt_def)
  have b: "listed_outcome ((Inr \<lparr>oid = 0, body = NoneLiteral\<rparr>, \<lparr>next_oid = 2, user = 1\<rparr>)
         :: (unit + int jsval Option) \<times> nat world)"
    using of_Some_filter
      [where p = "\<lparr>oid = 1, body = SomeLiteral (JOther (4::int))\<rparr>" and x = "JOther 4"
         and pred = "counting (\<lambda>x. False) :: int jsval \<Rightarrow> (nat, unit, bool) js"
         and w = "\<lparr>next_oid = 2, user = 0\<rparr>"]
    by (simp add: Option_filter_def Some_filter_def seq_def returns_def counting_def
          None_opt_def)
  show ?thesis
    using absent_result_is_None
      [where p = "\<lparr>oid = 1, body = SomeLiteral (4::int)\<rparr>" and x = 4
         and pred = "counting (\<lambda>x. 5 < x) :: int \<Rightarrow> (nat, unit, bool) js"
         and w = "\<lparr>next_oid = 2, user = 0\<rparr>"
         and r = "\<lparr>oid = 0, body = NoneLiteral\<rparr>"
         and w' = "\<lparr>next_oid = 2, user = 1\<rparr>"
         and y = 4 and isNoneP = "counting (\<lambda>x. x < 5) :: int \<Rightarrow> (nat, unit, bool) js"
         and v = "JNull :: int jsval" and v' = "JUndefined :: int jsval"
         and q = "\<lparr>oid = 0, body = NoneLiteral\<rparr>"
         and w'' = "\<lparr>next_oid = 2, user = 0\<rparr>"
         and f = "counting (\<lambda>x. x) :: int \<Rightarrow> (nat, unit, int) js"
         and g = "counting (\<lambda>x. None_opt) :: int \<Rightarrow> (nat, unit, int Option) js"
         and other = "None_opt :: int Option"
         and ?r1.0 = "\<lparr>oid = 0, body = NoneLiteral\<rparr>"
         and ?w1.0 = "\<lparr>next_oid = 2, user = 0\<rparr>"
         and ?r2.0 = "\<lparr>oid = 0, body = NoneLiteral\<rparr>"
         and ?w2.0 = "\<lparr>next_oid = 2, user = 1\<rparr>"] a b
    by (simp add: counting_def Option_filter_def Some_filter_def seq_def returns_def Some_opt_def
          fromValueConditional_def createOptionFactory_def fromValue_def fromNullable_def
          fromUndefinable_def isNone_def None_opt_def)
qed

section \<open>What a present object can hold\<close>

lemma fromValue_present_result:
  "fromValue v w = (Inr r, w') \<Longrightarrow> isSome r \<Longrightarrow>
   body r = SomeLiteral v \<and> v \<noteq> JNull \<and> v \<noteq> JUndefined"
  by (auto simp: fromValue_apply isSome_def None_opt_def split: if_splits)

lemma fromNullable_present_result:
  "fromNullable v w = (Inr r, w') \<Longrightarrow> isSome r \<Longrightarrow> body r = SomeLiteral v \<and> v \<noteq> JNull"
  by (auto simp: fromNullable_apply isSome_def None_opt_def split: if_splits)

lemma fromUndefinable_present_result:
  "fromUndefinable v w = (Inr r, w') \<Longrightarrow> isSome r \<Longrightarrow> body r = SomeLiteral v \<and> v \<noteq> JUndefined"
  by (auto simp: fromUndefinable_apply isSome_def None_opt_def split: if_splits)

text \<open>
  Claim C2 says that no present object reachable through the public interface holds \<open>null\<close>
  or \<open>undefined\<close>. The code has no such guard: \<open>Some\<close> wraps the value it is given, and
  \<open>fromNullable\<close> and \<open>fromUndefinable\<close> each test one sentinel only. From the world a consumer
  starts in, \<open>Some(null)\<close> is present and holds \<open>null\<close>; \<open>fromNullable(undefined)\<close> is present
  and holds \<open>undefined\<close>; \<open>fromUndefinable(null)\<close> is present and holds \<open>null\<close>.
\<close>

theorem present_payload_null_counterexample:
  "Some_opt (JNull :: int jsval) (world0 ())
     = (Inr \<lparr>oid = 1, body = SomeLiteral JNull\<rparr> :: unit + int jsval Option,
        \<lparr>next_oid = 2, user = ()\<rparr>)
   \<and> isSome \<lparr>oid = 1, body = SomeLiteral (JNull :: int jsval)\<rparr>
   \<and> fromNullable (JUndefined :: int jsval) (world0 ())
     = (Inr \<lparr>oid = 1, body = SomeLiteral JUndefined\<rparr> :: unit + int jsval Option,
        \<lparr>next_oid = 2, user = ()\<rparr>)
   \<and> isSome \<lparr>oid = 1, body = SomeLiteral (JUndefined :: int jsval)\<rparr>
   \<and> fromUndefinable (JNull :: int jsval) (world0 ())
     = (Inr \<lparr>oid = 1, body = SomeLiteral JNull\<rparr> :: unit + int jsval Option,
        \<lparr>next_oid = 2, user = ()\<rparr>)"
  by (simp add: Some_opt_def fromNullable_def fromUndefinable_def world0_def isSome_def)

text \<open>
  Claim C2, as amended. A present object that \<open>fromValue\<close> returned holds the input, which is
  neither \<open>null\<close> nor \<open>undefined\<close>; one that \<open>fromNullable\<close> returned holds the input, which
  is not \<open>null\<close>; one that \<open>fromUndefinable\<close> returned holds the input, which is not
  \<open>undefined\<close>. \<open>Some(x)\<close> returns a present object holding \<open>x\<close> for every \<open>x\<close>: presence
  does not depend on the value wrapped.
\<close>

theorem wrapped_payload_guarantees:
  "(fromValue v w = ((Inr r, w') :: ('e + 'a jsval Option) \<times> 's world) \<and> isSome r \<longrightarrow>
      body r = SomeLiteral v \<and> v \<noteq> JNull \<and> v \<noteq> JUndefined)
   \<and> (fromNullable v w = ((Inr r, w') :: ('e + 'a jsval Option) \<times> 's world) \<and> isSome r \<longrightarrow>
      body r = SomeLiteral v \<and> v \<noteq> JNull)
   \<and> (fromUndefinable v w = ((Inr r, w') :: ('e + 'a jsval Option) \<times> 's world) \<and> isSome r \<longrightarrow>
      body r = SomeLiteral v \<and> v \<noteq> JUndefined)
   \<and> Some_opt x w
       = ((Inr \<lparr>oid = next_oid w, body = SomeLiteral x\<rparr>, w\<lparr>next_oid := Suc (next_oid w)\<rparr>)
           :: ('e + 'b Option) \<times> 's world)
   \<and> isSome \<lparr>oid = next_oid w, body = SomeLiteral x\<rparr>
   \<and> \<not> isNone \<lparr>oid = next_oid w, body = SomeLiteral x\<rparr>"
proof -
  have a: "fromValue v w = ((Inr r, w') :: ('e + 'a jsval Option) \<times> 's world) \<and> isSome r \<longrightarrow>
      body r = SomeLiteral v \<and> v \<noteq> JNull \<and> v \<noteq> JUndefined"
    by (blast dest: fromValue_present_result)
  have b: "fromNullable v w = ((Inr r, w') :: ('e + 'a jsval Option) \<times> 's world) \<and> isSome r \<longrightarrow>
      body r = SomeLiteral v \<and> v \<noteq> JNull"
    by (blast dest: fromNullable_present_result)
  have c: "fromUndefinable v w = ((Inr r, w') :: ('e + 'a jsval Option) \<times> 's world) \<and> isSome r \<longrightarrow>
      body r = SomeLiteral v \<and> v \<noteq> JUndefined"
    by (blast dest: fromUndefinable_present_result)
  show ?thesis
    by (intro conjI) (rule a b c Some_opt_apply isSome_object not_isNone_object)+
qed

theorem wrapped_payload_guarantees_witness:
  "fromValue (JOther (5::int)) (world0 ())
     = (Inr \<lparr>oid = 1, body = SomeLiteral (JOther 5)\<rparr> :: unit + int jsval Option,
        \<lparr>next_oid = 2, user = ()\<rparr>)
   \<and> fromNullable (JOther (5::int)) (world0 ())
     = (Inr \<lparr>oid = 1, body = SomeLiteral (JOther 5)\<rparr> :: unit + int jsval Option,
        \<lparr>next_oid = 2, user = ()\<rparr>)
   \<and> fromUndefinable (JOther (5::int)) (world0 ())
     = (Inr \<lparr>oid = 1, body = SomeLiteral (JOther 5)\<rparr> :: unit + int jsval Option,
        \<lparr>next_oid = 2, user = ()\<rparr>)
   \<and> isSome \<lparr>oid = 1, body = SomeLiteral (JOther (5::int))\<rparr>
   \<and> JOther (5::int) \<noteq> JNull \<and> JOther (5::int) \<noteq> JUndefined
   \<and> Some_opt (JNull :: int jsval) (world0 ())
     = (Inr \<lparr>oid = 1, body = SomeLiteral JNull\<rparr> :: unit + int jsval Option,
        \<lparr>next_oid = 2, user = ()\<rparr>)"
  using wrapped_payload_guarantees
    [where 'e = unit and v = "JOther (5::int)" and w = "world0 ()"
       and r = "\<lparr>oid = 1, body = SomeLiteral (JOther 5)\<rparr>"
       and w' = "\<lparr>next_oid = 2, user = ()\<rparr>" and x = "JNull :: int jsval"]
  by (simp add: fromValue_def fromNullable_def fromUndefinable_def Some_opt_def world0_def
        isSome_def)

section \<open>Exceptional exits\<close>

lemma fault_Inr: "fault (Inr r, w) = None"
  by (simp add: fault_def)

lemma fault_Inl: "fault (Inl e, w) = Some (e, w)"
  by (simp add: fault_def)

lemma fault_returns: "fault (returns r w) = None"
  by (simp add: fault_def returns_def)

lemma fault_Some_opt: "fault (Some_opt x w) = None"
  by (simp add: fault_def Some_opt_def)

lemma fault_seq:
  assumes "\<And>q w'. fault (k q w') = None"
  shows "fault (seq m k w) = fault (m w)"
proof (cases "m w")
  case (Pair out w')
  show ?thesis
  proof (cases out)
    case (Inl e)
    with Pair show ?thesis by (simp add: seq_def fault_def)
  next
    case (Inr q)
    with Pair have "seq m k w = k q w'" by (simp add: seq_def)
    with Pair Inr assms show ?thesis by (simp add: fault_Inr)
  qed
qed

lemma fault_match:
  "fault (Option_match opt some none w) =
     (case body opt of NoneLiteral \<Rightarrow> fault (none w) | SomeLiteral v \<Rightarrow> fault (some v w))"
  by (simp add: Option_match_def None_match_def Some_match_def split: literal.split)

lemma fault_getValueOrDefault: "fault (Option_getValueOrDefault opt d w) = None"
  by (simp add: Option_getValueOrDefault_def None_getValueOrDefault_def
        Some_getValueOrDefault_def fault_returns split: literal.split)

lemma fault_getValueOrCompute:
  "fault (Option_getValueOrCompute opt c w) =
     (case body opt of NoneLiteral \<Rightarrow> fault (c w) | SomeLiteral v \<Rightarrow> None)"
  by (simp add: Option_getValueOrCompute_def None_getValueOrCompute_def
        Some_getValueOrCompute_def fault_returns split: literal.split)

lemma fault_mapOrDefault:
  "fault (Option_mapOrDefault opt f d w) =
     (case body opt of NoneLiteral \<Rightarrow> None | SomeLiteral v \<Rightarrow> fault (f v w))"
  by (simp add: Option_mapOrDefault_def None_mapOrDefault_def Some_mapOrDefault_def
        fault_returns split: literal.split)

lemma fault_mapOrCompute:
  "fault (Option_mapOrCompute opt f c w) =
     (case body opt of NoneLiteral \<Rightarrow> fault (c w) | SomeLiteral v \<Rightarrow> fault (f v w))"
  by (simp add: Option_mapOrCompute_def None_mapOrCompute_def Some_mapOrCompute_def
        split: literal.split)

lemma fault_map:
  "fault (Option_map opt f w) =
     (case body opt of NoneLiteral \<Rightarrow> None | SomeLiteral v \<Rightarrow> fault (f v w))"
  by (simp add: Option_map_def None_map_def Some_map_def fault_returns
        fault_seq [OF fault_Some_opt] split: literal.split)

lemma fault_and: "fault (Option_and opt other w) = None"
  by (simp add: Option_and_def None_and_def Some_and_def fault_returns split: literal.split)

lemma fault_andThen:
  "fault (Option_andThen opt g w) =
     (case body opt of NoneLiteral \<Rightarrow> None | SomeLiteral v \<Rightarrow> fault (g v w))"
  by (simp add: Option_andThen_def None_andThen_def Some_andThen_def fault_returns
        split: literal.split)

lemma fault_or: "fault (Option_or opt alt w) = None"
  by (simp add: Option_or_def None_or_def Some_or_def fault_returns split: literal.split)

lemma fault_orElse:
  "fault (Option_orElse opt c w) =
     (case body opt of NoneLiteral \<Rightarrow> fault (c w) | SomeLiteral v \<Rightarrow> None)"
  by (simp add: Option_orElse_def None_orElse_def Some_orElse_def fault_returns
        split: literal.split)

lemma fault_filter:
  "fault (Option_filter opt pred w) =
     (case body opt of NoneLiteral \<Rightarrow> None | SomeLiteral v \<Rightarrow> fault (pred v w))"
  by (simp add: Option_filter_def None_filter_def Some_filter_def fault_returns
        fault_seq [OF fault_returns] split: literal.split)

lemma fault_fromValue: "fault (fromValue v w) = None"
  by (simp add: fromValue_def fault_returns fault_Some_opt)

lemma fault_fromNullable: "fault (fromNullable v w) = None"
  by (simp add: fromNullable_def fault_returns fault_Some_opt)

lemma fault_fromUndefinable: "fault (fromUndefinable v w) = None"
  by (simp add: fromUndefinable_def fault_returns fault_Some_opt)

lemma fault_fromValueConditional:
  "fault (fromValueConditional x isNoneP w) = fault (isNoneP x w)"
  unfolding fromValueConditional_def
  by (rule fault_seq) (simp add: fault_returns fault_Some_opt)

lemma fault_createOptionFactory:
  "fault (createOptionFactory isNoneP x w) = fault (isNoneP x w)"
  by (simp add: createOptionFactory_eq fault_fromValueConditional)

text \<open>
  Claim C9. For every receiver, every argument and every world: a call of a core operation
  or of a conversion utility leaves exceptionally exactly when the callback it runs did, with
  the value that callback threw and in the world it left. The operations that run no
  callback, and each operation on the variant where it runs none, never leave exceptionally.
\<close>

theorem only_callbacks_raise:
  fixes opt :: "'a Option" and w :: "'s world"
    and some f :: "'a \<Rightarrow> ('s, 'e, 'u) js" and none c' :: "('s, 'e, 'u) js"
    and c :: "('s, 'e, 'a) js" and g :: "'a \<Rightarrow> ('s, 'e, 'u Option) js"
    and other :: "'u Option" and alt :: "'a Option" and orc :: "('s, 'e, 'a Option) js"
    and pred :: "'a \<Rightarrow> ('s, 'e, bool) js" and v :: "'a jsval" and x d :: 'a and d' :: 'u
  shows
  "fault (Option_match opt some none w) =
     (case body opt of NoneLiteral \<Rightarrow> fault (none w) | SomeLiteral y \<Rightarrow> fault (some y w))
   \<and> fault (Option_getValueOrDefault opt d w) = (None :: ('e \<times> 's world) option)
   \<and> fault (Option_getValueOrCompute opt c w) =
     (case body opt of NoneLiteral \<Rightarrow> fault (c w) | SomeLiteral y \<Rightarrow> None)
   \<and> fault (Option_mapOrDefault opt f d' w) =
     (case body opt of NoneLiteral \<Rightarrow> None | SomeLiteral y \<Rightarrow> fault (f y w))
   \<and> fault (Option_mapOrCompute opt f c' w) =
     (case body opt of NoneLiteral \<Rightarrow> fault (c' w) | SomeLiteral y \<Rightarrow> fault (f y w))
   \<and> fault (Option_map opt f w) =
     (case body opt of NoneLiteral \<Rightarrow> None | SomeLiteral y \<Rightarrow> fault (f y w))
   \<and> fault (Option_and opt other w) = (None :: ('e \<times> 's world) option)
   \<and> fault (Option_andThen opt g w) =
     (case body opt of NoneLiteral \<Rightarrow> None | SomeLiteral y \<Rightarrow> fault (g y w))
   \<and> fault (Option_or opt alt w) = (None :: ('e \<times> 's world) option)
   \<and> fault (Option_orElse opt orc w) =
     (case body opt of NoneLiteral \<Rightarrow> fault (orc w) | SomeLiteral y \<Rightarrow> None)
   \<and> fault (Option_filter opt pred w) =
     (case body opt of NoneLiteral \<Rightarrow> None | SomeLiteral y \<Rightarrow> fault (pred y w))
   \<and> fault (Some_opt x w) = (None :: ('e \<times> 's world) option)
   \<and> fault (fromValue v w) = (None :: ('e \<times> 's world) option)
   \<and> fault (fromNullable v w) = (None :: ('e \<times> 's world) option)
   \<and> fault (fromUndefinable v w) = (None :: ('e \<times> 's world) option)
   \<and> fault (fromValueConditional x pred w) = fault (pred x w)
   \<and> fault (createOptionFactory pred x w) = fault (pred x w)"
  by (intro conjI)
    (rule fault_match fault_getValueOrDefault fault_getValueOrCompute fault_mapOrDefault
      fault_mapOrCompute fault_map fault_and fault_andThen fault_or fault_orElse fault_filter
      fault_Some_opt fault_fromValue fault_fromNullable fault_fromUndefinable
      fault_fromValueConditional fault_createOptionFactory)+

theorem only_callbacks_raise_witness:
  "fault (Option_map \<lparr>oid = 1, body = SomeLiteral (5::int)\<rparr>
            ((\<lambda>y. seq (counting (\<lambda>z. z) y) (\<lambda>_. throws ''boom''))
               :: int \<Rightarrow> (nat, string, int) js)
            \<lparr>next_oid = 2, user = 0\<rparr>)
     = Some (''boom'', \<lparr>next_oid = 2, user = 1\<rparr>)
   \<and> fault (Option_mapOrCompute \<lparr>oid = 1, body = SomeLiteral (5::int)\<rparr>
            ((\<lambda>y. seq (counting (\<lambda>z. z) y) (\<lambda>_. throws ''boom''))
               :: int \<Rightarrow> (nat, string, int) js)
            (throws ''other'') \<lparr>next_oid = 2, user = 0\<rparr>)
     = Some (''boom'', \<lparr>next_oid = 2, user = 1\<rparr>)
   \<and> fault (Option_getValueOrCompute \<lparr>oid = 1, body = SomeLiteral (5::int)\<rparr>
            (throws ''other'') \<lparr>next_oid = 2, user = 0::nat\<rparr>)
     = None"
  using only_callbacks_raise
    [where opt = "\<lparr>oid = 1, body = SomeLiteral (5::int)\<rparr>"
       and w = "\<lparr>next_oid = 2, user = 0\<rparr>"
       and f = "(\<lambda>y. seq (counting (\<lambda>z. z) y) (\<lambda>_. throws ''boom''))
                  :: int \<Rightarrow> (nat, string, int) js"
       and some = "(\<lambda>y. seq (counting (\<lambda>z. z) y) (\<lambda>_. throws ''boom''))
                  :: int \<Rightarrow> (nat, string, int) js"
       and none = "throws ''other''" and c' = "throws ''other''" and c = "throws ''other''"
       and g = "\<lambda>y. throws ''other''" and other = None_opt and alt = None_opt
       and orc = "throws ''other''" and pred = "\<lambda>y. throws ''other''"
       and v = JNull and x = 5 and d = 5 and d' = 5]
  by (simp add: fault_Inl fault_Inr seq_def counting_def throws_def)

end
